theory Spec2Isabelle
  imports Main
begin

section \<open>Strings, text ranges and recorded replacements\<close>

text \<open>
  A Python \<open>str\<close> is modelled as a \<^typ>\<open>string\<close>: a list of characters, each standing for
  one code point in the range U+0000 .. U+00FF, so that \<^const>\<open>length\<close> counts code points
  as Python's \<open>len\<close> does. Offsets into the source are character offsets, as the ones
  \<open>asttokens\<close> hands out.
\<close>

abbreviation squote :: char where "squote \<equiv> CHR 0x27"
abbreviation dquote :: char where "dquote \<equiv> CHR 0x22"
abbreviation backslash :: char where "backslash \<equiv> CHR 0x5C"
abbreviation newline :: char where "newline \<equiv> CHR 0x0A"
abbreviation tab :: char where "tab \<equiv> CHR 0x09"
abbreviation carriage_return :: char where "carriage_return \<equiv> CHR 0x0D"

type_synonym text_range = "nat \<times> nat"

type_synonym replacement = "text_range \<times> string"

text \<open>The slice \<open>source[start:stop]\<close> for non-negative offsets.\<close>

definition slice :: "string \<Rightarrow> nat \<Rightarrow> nat \<Rightarrow> string" where
  "slice source start stop = drop start (take stop source)"

section \<open>The builtin \<open>repr\<close> of a string\<close>

text \<open>
  \<open>repr(str)\<close> as CPython computes it, on code points up to U+00FF. The delimiter is the
  double quote exactly when the value holds a single quote and no double quote, and the
  single quote otherwise. The delimiter and the backslash are escaped with a backslash;
  tab, newline and carriage return become a backslash and the letter t, n or r; any
  other code point that is not printable becomes a backslash, the letter x and two
  lower-case hexadecimal digits; every other code point is copied. In this range the
  printable code points are U+0020 .. U+007E and U+00A1 .. U+00FF without U+00AD.
\<close>

definition isprintable :: "char \<Rightarrow> bool" where
  "isprintable ch =
     ((32 \<le> (of_char ch :: nat) \<and> (of_char ch :: nat) \<le> 126) \<or>
      (161 \<le> (of_char ch :: nat) \<and> (of_char ch :: nat) \<noteq> 173))"

definition hexdigit :: "nat \<Rightarrow> char" where
  "hexdigit d = ''0123456789abcdef'' ! (d mod 16)"

definition hex_escape :: "char \<Rightarrow> string" where
  "hex_escape ch =
     [backslash, CHR ''x'', hexdigit ((of_char ch :: nat) div 16), hexdigit ((of_char ch :: nat) mod 16)]"

definition repr_char :: "char \<Rightarrow> char \<Rightarrow> string" where
  "repr_char quote ch =
     (if ch = quote \<or> ch = backslash then [backslash, ch]
      else if ch = tab then [backslash, CHR ''t'']
      else if ch = newline then [backslash, CHR ''n'']
      else if ch = carriage_return then [backslash, CHR ''r'']
      else if (of_char ch :: nat) < 32 \<or> (of_char ch :: nat) = 127 then hex_escape ch
      else if (of_char ch :: nat) < 127 then [ch]
      else if \<not> isprintable ch then hex_escape ch
      else [ch])"

definition repr_quote :: "string \<Rightarrow> char" where
  "repr_quote s = (if squote \<in> set s \<and> dquote \<notin> set s then dquote else squote)"

definition py_repr :: "string \<Rightarrow> string" where
  "py_repr s = repr_quote s # concat (map (repr_char (repr_quote s)) s) @ [repr_quote s]"

section \<open>The rewriter\<close>

text \<open>
  The tree that \<open>asttokens.ASTTokens(source, parse=True)\<close> hands to the visitor. Only what
  the visitor reads is kept: a constant with its value and the text range
  \<open>get_text_range\<close> gives for it (\<open>(0, 0)\<close> when the node has no position), an expression
  statement with its value, a class, function or async function definition with the child
  nodes of the fields before \<open>body\<close>, the statements of \<open>body\<close> and the child nodes of
  the fields after it, the module with its statements, and any other node with its child
  nodes in field order.
\<close>

datatype py_value = Str string | NonStr

datatype def_kind = ClassDef | FunctionDef | AsyncFunctionDef

datatype node =
    Constant py_value text_range
  | Expr node
  | Definition def_kind "node list" "node list" "node list"
  | Module "node list"
  | Other "node list"

text \<open>\<open>Rewriter.record_replacement\<close>: append to the list of replacements.\<close>

definition record_replacement :: "text_range \<Rightarrow> string \<Rightarrow> replacement list \<Rightarrow> replacement list" where
  "record_replacement text_range new_source replacements = replacements @ [(text_range, new_source)]"

text \<open>The regular expression match of \<open>string\<close> against a leading quote character.\<close>

definition starts_with_quote :: "string \<Rightarrow> bool" where
  "starts_with_quote string = (case string of [] \<Rightarrow> False | c # _ \<Rightarrow> c = dquote \<or> c = squote)"

text \<open>The test whether \<open>s\<close> holds a backslash followed by the letter n.\<close>

fun contains_backslash_n :: "string \<Rightarrow> bool" where
  "contains_backslash_n (a # b # cs) = ((a = backslash \<and> b = CHR ''n'') \<or> contains_backslash_n (b # cs))"
| "contains_backslash_n _ = False"

text \<open>
  \<open>QuoteRewriter.rewrite_quotes_for_node\<close>. The node is given by its \<open>is_docstring\<close>
  attribute (\<open>False\<close> when it was never set), its value \<open>node.s\<close> and its text range.
\<close>

definition rewrite_quotes_for_node ::
  "string \<Rightarrow> bool \<Rightarrow> string \<Rightarrow> text_range \<Rightarrow> replacement list \<Rightarrow> replacement list" where
  "rewrite_quotes_for_node source is_docstring s text_range replacements =
     (if text_range = (0, 0) then replacements
      else if is_docstring then replacements
      else if slice source (fst text_range) (snd text_range) = [dquote, dquote]
            \<or> slice source (fst text_range) (snd text_range) = [squote, squote]
        then record_replacement text_range [squote, squote] replacements
      else if \<not> starts_with_quote (slice source (fst text_range) (snd text_range)) then replacements
      else if length s = 1 then record_replacement text_range (py_repr s) replacements
      else if newline \<in> set (slice source (fst text_range) (snd text_range)) then replacements
      else if newline \<in> set s \<or> contains_backslash_n s then replacements
      else record_replacement text_range (py_repr s) replacements)"

text \<open>
  The visitor. \<open>visit source is_docstring node\<close> visits \<open>node\<close>, whose \<open>is_docstring\<close>
  attribute is the given flag; \<open>visit_list\<close> visits the nodes of a list in order, none of
  them marked. A string constant goes to \<open>rewrite_quotes_for_node\<close>, any other constant
  has no child node. \<open>visit_definition\<close> sets the attribute on \<open>node.body[0].value\<close> when
  \<open>body\<close> is not empty and its first statement is an \<open>ast.Expr\<close>, and then visits the
  fields in order. Every other node is visited generically.
\<close>

fun visit :: "string \<Rightarrow> bool \<Rightarrow> node \<Rightarrow> replacement list \<Rightarrow> replacement list"
  and visit_list :: "string \<Rightarrow> node list \<Rightarrow> replacement list \<Rightarrow> replacement list"
where
  "visit source is_docstring (Constant (Str s) text_range) replacements =
     rewrite_quotes_for_node source is_docstring s text_range replacements"
| "visit source is_docstring (Constant NonStr text_range) replacements = replacements"
| "visit source is_docstring (Expr v) replacements = visit source False v replacements"
| "visit source is_docstring (Definition k first_fields (Expr v # body) last_fields) replacements =
     visit_list source last_fields
       (visit_list source body
         (visit source True v
           (visit_list source first_fields replacements)))"
| "visit source is_docstring (Definition k first_fields body last_fields) replacements =
     visit_list source last_fields
       (visit_list source body
         (visit_list source first_fields replacements))"
| "visit source is_docstring (Module body) replacements = visit_list source body replacements"
| "visit source is_docstring (Other children) replacements = visit_list source children replacements"
| "visit_list source [] replacements = replacements"
| "visit_list source (n # ns) replacements = visit_list source ns (visit source False n replacements)"

text \<open>
  \<open>sorted(self.replacements, key=itemgetter(0), reverse=True)\<close>: a stable sort on the
  text range, a pair compared lexicographically, largest first.
\<close>

definition range_le :: "text_range \<Rightarrow> text_range \<Rightarrow> bool" where
  "range_le a b = (fst a < fst b \<or> (fst a = fst b \<and> snd a \<le> snd b))"

fun insert_reverse :: "replacement \<Rightarrow> replacement list \<Rightarrow> replacement list" where
  "insert_reverse x [] = [x]"
| "insert_reverse x (y # ys) =
     (if range_le (fst y) (fst x) then x # y # ys else y # insert_reverse x ys)"

definition sorted_reverse :: "replacement list \<Rightarrow> replacement list" where
  "sorted_reverse replacements = foldr insert_reverse replacements []"

text \<open>The loop of \<open>Rewriter.rewrite\<close> over the sorted replacements.\<close>

fun apply_replacements :: "replacement list \<Rightarrow> string \<Rightarrow> string" where
  "apply_replacements [] reformatted_source = reformatted_source"
| "apply_replacements (((start, stop), replacement) # rest) reformatted_source =
     apply_replacements rest
       (take start reformatted_source @ replacement @ drop stop reformatted_source)"

text \<open>\<open>Rewriter.rewrite\<close>, for a source and the tree parsed from it.\<close>

definition rewrite :: "string \<Rightarrow> node \<Rightarrow> string" where
  "rewrite source tree = apply_replacements (sorted_reverse (visit source False tree [])) source"

section \<open>Decoding a string literal\<close>

text \<open>
  The value of a plain string literal of Python: one that starts with a quote character,
  ends at the next unescaped occurrence of the same quote, and holds no unescaped line
  break (so neither a prefixed, nor a triple-quoted, nor an implicitly concatenated
  literal, for which the result is \<open>None\<close>). The escape sequences are those of the
  language reference: a backslash before a line break is dropped with it; a backslash
  before a backslash or a quote gives that character; the letters a, b, f, n, r, t, v after a
  backslash give the control characters BEL, BS, FF, LF, CR, TAB, VT; up to three octal
  digits give the code point of that number; the letter x with exactly two hexadecimal
  digits likewise; any other character after a backslash stays with its backslash. The
  escapes with the letters u, U and N name code points by ranges and tables outside this
  model, and an octal escape can name a code point above U+00FF: the result is
  \<open>None\<close> for them.
\<close>

definition hexval :: "char \<Rightarrow> nat option" where
  "hexval c =
     (if 48 \<le> (of_char c :: nat) \<and> (of_char c :: nat) \<le> 57 then Some (of_char c - 48)
      else if 97 \<le> (of_char c :: nat) \<and> (of_char c :: nat) \<le> 102 then Some (of_char c - 87)
      else if 65 \<le> (of_char c :: nat) \<and> (of_char c :: nat) \<le> 70 then Some (of_char c - 55)
      else None)"

definition is_octdigit :: "char \<Rightarrow> bool" where
  "is_octdigit c = (48 \<le> (of_char c :: nat) \<and> (of_char c :: nat) \<le> 55)"

definition simple_escape :: "char \<Rightarrow> char option" where
  "simple_escape e =
     (if e = backslash then Some backslash
      else if e = squote then Some squote
      else if e = dquote then Some dquote
      else if e = CHR ''a'' then Some (CHR 0x07)
      else if e = CHR ''b'' then Some (CHR 0x08)
      else if e = CHR ''f'' then Some (CHR 0x0C)
      else if e = CHR ''n'' then Some newline
      else if e = CHR ''r'' then Some carriage_return
      else if e = CHR ''t'' then Some tab
      else if e = CHR ''v'' then Some (CHR 0x0B)
      else None)"

definition decode_hex :: "string \<Rightarrow> (string \<times> string) option" where
  "decode_hex cs =
     (case cs of
        h1 # h2 # rest \<Rightarrow>
          (case hexval h1 of
             None \<Rightarrow> None
           | Some a \<Rightarrow>
               (case hexval h2 of
                  None \<Rightarrow> None
                | Some b \<Rightarrow> Some ([char_of (16 * a + b)], rest)))
      | _ \<Rightarrow> None)"

definition decode_octal :: "string \<Rightarrow> (string \<times> string) option" where
  "decode_octal cs =
     (let digits = takeWhile is_octdigit (take 3 cs);
          n = foldl (\<lambda>a d. 8 * a + ((of_char d :: nat) - 48)) 0 digits
      in if 255 < n then None else Some ([char_of n], drop (length digits) cs))"

text \<open>
  \<open>decode_escape cs\<close> reads one escape sequence from the text \<open>cs\<close> that follows a
  backslash, and gives the characters it stands for and the text after it.
\<close>

definition decode_escape :: "string \<Rightarrow> (string \<times> string) option" where
  "decode_escape cs =
     (case cs of
        [] \<Rightarrow> None
      | e # rest \<Rightarrow>
          (case simple_escape e of
             Some v \<Rightarrow> Some ([v], rest)
           | None \<Rightarrow>
               if e = newline then Some ([], rest)
               else if e = CHR ''x'' then decode_hex rest
               else if is_octdigit e then decode_octal (e # rest)
               else if e = CHR ''u'' \<or> e = CHR ''U'' \<or> e = CHR ''N'' then None
               else Some ([backslash, e], rest)))"

lemma decode_escape_shorter:
  "decode_escape cs = Some (v, rest) \<Longrightarrow> length rest < Suc (length cs)"
  by (auto simp: decode_escape_def decode_hex_def decode_octal_def Let_def
      split: list.splits option.splits if_splits)

function decode_body :: "char \<Rightarrow> string \<Rightarrow> string option" where
  "decode_body quote [] = None"
| "decode_body quote (c # cs) =
     (if c = quote then (if cs = [] then Some [] else None)
      else if c = newline then None
      else if c = backslash then
        (case decode_escape cs of
           None \<Rightarrow> None
         | Some (v, rest) \<Rightarrow> map_option ((@) v) (decode_body quote rest))
      else map_option ((#) c) (decode_body quote cs))"
  by pat_completeness auto
termination
  by (relation "measure (\<lambda>(quote, cs). length cs)") (auto dest: decode_escape_shorter)

definition py_decode :: "string \<Rightarrow> string option" where
  "py_decode spelling =
     (case spelling of
        [] \<Rightarrow> None
      | q # cs \<Rightarrow> if q = squote \<or> q = dquote then decode_body q cs else None)"

section \<open>Conditions and example programs\<close>


text \<open>
  The tree of a module that holds the single statement \<open>name = value\<close>: the module, the
  assignment, its target (a name with its context node) and its value.
\<close>

definition assignment :: "node \<Rightarrow> node" where
  "assignment v = Module [Other [Other [Other []], v]]"

text \<open>
  The tree of a module that holds a single function definition without parameters,
  decorators or annotations: the node of the (empty) arguments comes before the body.
\<close>

definition function_with_body :: "node list \<Rightarrow> node" where
  "function_with_body body = Module [Definition FunctionDef [Other []] body []]"

text \<open>
  The tree of a module that holds the single statement \<open>a = "x1" + "y2"\<close>: the value of
  the assignment is a binary operation with its left operand, its operator and its right
  operand.
\<close>

definition sum_source :: string where
  "sum_source = ''a = '' @ [dquote] @ ''x1'' @ [dquote] @ '' + '' @ [dquote] @ ''y2'' @ [dquote]"

definition sum_tree :: node where
  "sum_tree = assignment (Other [Constant (Str ''x1'') (4, 8), Other [], Constant (Str ''y2'') (11, 15)])"

text \<open>
  The tree of a module that holds one assignment whose value is a sum of a sum: a literal in
  the two adjacent parts \<open>'p' 'q'\<close>, the empty literal between double quotes, and a
  literal between double quotes whose value is c, a backslash and t, spelled with the
  backslash doubled.
\<close>

definition parts_source :: string where
  "parts_source = ''a = 'p' 'q' + '' @ [dquote, dquote] @ '' + ''
     @ [dquote, CHR ''c'', backslash, backslash, CHR ''t'', dquote]"

definition parts_tree :: node where
  "parts_tree = assignment
     (Other [Other [Constant (Str ''pq'') (4, 11), Other [], Constant (Str []) (14, 16)],
             Other [], Constant (Str [CHR ''c'', backslash, CHR ''t'']) (19, 25)])"




section \<open>Text ranges that do not overlap, and the text spliced from left to right\<close>

text \<open>
  Two half-open ranges are separate when one ends where, or before, the other starts.
  \<open>ranges_ok n rs\<close>: every range of \<open>rs\<close> is a range of a text of length \<open>n\<close>, and the
  ranges are separate from one another.
\<close>

definition separate :: "text_range \<Rightarrow> text_range \<Rightarrow> bool" where
  "separate a b = (snd a \<le> fst b \<or> snd b \<le> fst a)"

fun ranges_ok :: "nat \<Rightarrow> text_range list \<Rightarrow> bool" where
  "ranges_ok n [] = True"
| "ranges_ok n (r # rs) =
     (fst r \<le> snd r \<and> snd r \<le> n \<and> list_all (separate r) rs \<and> ranges_ok n rs)"

text \<open>
  \<open>descending_within n ds\<close>: the ranges of \<open>ds\<close> lie below \<open>n\<close>, and each one lies below
  the start of the one before it.
\<close>

fun descending_within :: "nat \<Rightarrow> replacement list \<Rightarrow> bool" where
  "descending_within n [] = True"
| "descending_within n (((start, stop), new) # rest) =
     (start \<le> stop \<and> stop \<le> n \<and> descending_within start rest)"

text \<open>
  The frame of the apply pass, stated from left to right. For replacements in ascending
  order, \<open>splice pos es source\<close> is the text of \<open>source\<close> from \<open>pos\<close> on in which the text
  of every range is replaced: the untouched text up to the first range, the new text for
  that range, and so on from the end of that range; after the last range, the rest of the
  source. Every character of the source outside the ranges is in the result, in its order,
  and the result holds nothing else but the new texts.
\<close>

fun splice :: "nat \<Rightarrow> replacement list \<Rightarrow> string \<Rightarrow> string" where
  "splice pos [] source = drop pos source"
| "splice pos (((start, stop), new) # rest) source =
     slice source pos start @ new @ splice stop rest source"

section \<open>The tree of the rewritten text\<close>

text \<open>
  The string constants of a tree in the order of the visit, each with its docstring mark,
  its value and its text range.
\<close>

fun literals :: "bool \<Rightarrow> node \<Rightarrow> (bool \<times> string \<times> text_range) list"
  and literals_list :: "node list \<Rightarrow> (bool \<times> string \<times> text_range) list"
where
  "literals d (Constant (Str s) r) = [(d, s, r)]"
| "literals d (Constant NonStr r) = []"
| "literals d (Expr v) = literals False v"
| "literals d (Definition k first_fields (Expr v # body) last_fields) =
     literals_list first_fields @ literals True v @ literals_list body @ literals_list last_fields"
| "literals d (Definition k first_fields body last_fields) =
     literals_list first_fields @ literals_list body @ literals_list last_fields"
| "literals d (Module body) = literals_list body"
| "literals d (Other children) = literals_list children"
| "literals_list [] = []"
| "literals_list (n # ns) = literals False n @ literals_list ns"

text \<open>
  The spelling of a literal after the rewrite: the replacement recorded for it, or its own
  text when none is recorded.
\<close>

definition new_spelling :: "string \<Rightarrow> bool \<Rightarrow> string \<Rightarrow> text_range \<Rightarrow> string" where
  "new_spelling source d s r =
     (case rewrite_quotes_for_node source d s r [] of
        [] \<Rightarrow> slice source (fst r) (snd r)
      | x # _ \<Rightarrow> snd x)"

text \<open>
  Where the offset \<open>a\<close> of the source is in the rewritten text: behind the rewritten text
  of everything before \<open>a\<close>, that is of the source up to \<open>a\<close> with the replacements
  that end there or before.
\<close>

definition moved :: "string \<Rightarrow> replacement list \<Rightarrow> nat \<Rightarrow> nat" where
  "moved source ds a =
     length (apply_replacements (filter (\<lambda>x. snd (fst x) \<le> a) ds) (take a source))"

definition new_range :: "string \<Rightarrow> replacement list \<Rightarrow> nat \<Rightarrow> text_range \<Rightarrow> text_range" where
  "new_range source ds n r =
     (if r = (0, 0) then (0, 0) else (moved source ds (fst r), moved source ds (fst r) + n))"

text \<open>
  The parser is not part of the repository, and what it gives for the rewritten text is
  read from that text as far as this theory can read it. The rewrite replaces the text of
  string literals and nothing else, so the statements and expressions around them are those
  of the source. For each string constant, the text of its range in the rewritten text is
  decoded: \<open>read_value\<close> is the value that \<open>py_decode\<close> gives for that text. A text
  that \<open>py_decode\<close> does not read (a prefixed, a triple-quoted or a multi-part literal)
  has the value that the parser gave for it in the source when it is the very text of the
  literal in the source, and no value otherwise.
\<close>

definition read_value :: "string \<Rightarrow> string \<Rightarrow> string \<Rightarrow> string option" where
  "read_value old_spelling old_value spelling =
     (case py_decode spelling of
        Some v \<Rightarrow> Some v
      | None \<Rightarrow> if spelling = old_spelling then Some old_value else None)"

text \<open>
  The value and the range of a string constant in the rewritten text \<open>out\<close>: the range
  is where the text of the literal went, with the length of its new spelling, and the value
  is read from \<open>out\<close> at that range.
\<close>

definition reparse_constant ::
  "string \<Rightarrow> string \<Rightarrow> replacement list \<Rightarrow> bool \<Rightarrow> string \<Rightarrow> text_range \<Rightarrow> (string \<times> text_range) option" where
  "reparse_constant out source ds d s r =
     map_option (\<lambda>v. (v, new_range source ds (length (new_spelling source d s r)) r))
       (read_value (slice source (fst r) (snd r)) s
          (slice out (fst (new_range source ds (length (new_spelling source d s r)) r))
                     (snd (new_range source ds (length (new_spelling source d s r)) r))))"

text \<open>
  The tree with every string constant as it is read from the rewritten text. (A constant
  that cannot be read stays as it is; \<open>reparse\<close> gives no tree then.)
\<close>

fun reparse_node :: "string \<Rightarrow> string \<Rightarrow> replacement list \<Rightarrow> bool \<Rightarrow> node \<Rightarrow> node"
  and reparse_list :: "string \<Rightarrow> string \<Rightarrow> replacement list \<Rightarrow> node list \<Rightarrow> node list"
where
  "reparse_node out source ds d (Constant (Str s) r) =
     (case reparse_constant out source ds d s r of
        Some (v, r') \<Rightarrow> Constant (Str v) r'
      | None \<Rightarrow> Constant (Str s) r)"
| "reparse_node out source ds d (Constant NonStr r) =
     Constant NonStr (new_range source ds (snd r - fst r) r)"
| "reparse_node out source ds d (Expr v) = Expr (reparse_node out source ds False v)"
| "reparse_node out source ds d (Definition k first_fields (Expr v # body) last_fields) =
     Definition k (reparse_list out source ds first_fields)
       (Expr (reparse_node out source ds True v) # reparse_list out source ds body)
       (reparse_list out source ds last_fields)"
| "reparse_node out source ds d (Definition k first_fields body last_fields) =
     Definition k (reparse_list out source ds first_fields) (reparse_list out source ds body)
       (reparse_list out source ds last_fields)"
| "reparse_node out source ds d (Module body) = Module (reparse_list out source ds body)"
| "reparse_node out source ds d (Other children) = Other (reparse_list out source ds children)"
| "reparse_list out source ds [] = []"
| "reparse_list out source ds (n # ns) =
     reparse_node out source ds False n # reparse_list out source ds ns"

text \<open>
  The tree that is read from the text \<open>out\<close> as the rewritten text of \<open>source\<close>, when
  every string literal can be read from it; \<open>None\<close> when one cannot.
\<close>

definition reparse :: "string \<Rightarrow> string \<Rightarrow> node \<Rightarrow> node option" where
  "reparse out source tree =
     (if list_all (\<lambda>l. reparse_constant out source (sorted_reverse (visit source False tree []))
                       (fst l) (fst (snd l)) (snd (snd l)) \<noteq> None)
           (literals False tree)
      then Some (reparse_node out source (sorted_reverse (visit source False tree [])) False tree)
      else None)"


section \<open>Auxiliary notions\<close>






section \<open>Properties\<close>

subsection \<open>Decoding what \<open>repr\<close> writes\<close>











lemma rewrite_quotes_for_node_docstring:
  "rewrite_quotes_for_node source True s text_range replacements = replacements"
  by (simp add: rewrite_quotes_for_node_def)

subsection \<open>A backslash and the letter n in a spelling\<close>

lemma backslash_n_Cons: "contains_backslash_n cs \<Longrightarrow> contains_backslash_n (c # cs)"
  by (cases cs) simp_all

lemma backslash_n_append: "contains_backslash_n cs \<Longrightarrow> contains_backslash_n (v @ cs)"
  by (induction v) (simp_all add: backslash_n_Cons)

lemma backslash_n_tail: "contains_backslash_n (c # cs) \<Longrightarrow> c \<noteq> backslash \<Longrightarrow> contains_backslash_n cs"
  by (cases cs) simp_all

lemma backslash_n_drop:
  "\<forall>c \<in> set (take k cs). c \<noteq> backslash \<Longrightarrow> contains_backslash_n cs \<Longrightarrow>
   contains_backslash_n (drop k cs)"
proof (induction k arbitrary: cs)
  case 0
  then show ?case by simp
next
  case (Suc k)
  show ?case
  proof (cases cs)
    case Nil
    with Suc.prems show ?thesis by simp
  next
    case (Cons c cs')
    with Suc.prems have "c \<noteq> backslash" "\<forall>c \<in> set (take k cs'). c \<noteq> backslash" by simp_all
    with Suc.prems(2) Cons Suc.IH [of cs'] show ?thesis
      by (simp add: backslash_n_tail)
  qed
qed

lemma hexval_not_backslash: "hexval h = Some a \<Longrightarrow> h \<noteq> backslash"
  by (auto simp: hexval_def)

lemma octdigit_not_backslash: "is_octdigit c \<Longrightarrow> c \<noteq> backslash"
  by (auto simp: is_octdigit_def)

lemma decode_hex_backslash_n:
  "decode_hex cs = Some (v, rest) \<Longrightarrow> contains_backslash_n cs \<Longrightarrow> contains_backslash_n rest"
  by (auto simp: decode_hex_def split: list.splits option.splits
      dest!: hexval_not_backslash dest: backslash_n_tail)

lemma decode_octal_backslash_n:
  assumes "decode_octal cs = Some (v, rest)" "contains_backslash_n cs"
  shows "contains_backslash_n rest"
proof -
  let ?digits = "takeWhile is_octdigit (take 3 cs)"
  from assms(1) have rest: "rest = drop (length ?digits) cs"
    by (simp add: decode_octal_def Let_def split: if_splits)
  have "take (length ?digits) (take 3 cs) = ?digits"
    by (metis takeWhile_eq_take)
  moreover have "length ?digits \<le> 3"
    by (metis length_takeWhile_le length_take min.cobounded2 order_trans)
  ultimately have "take (length ?digits) cs = ?digits"
    by (simp add: min_def)
  then have "\<forall>c \<in> set (take (length ?digits) cs). c \<noteq> backslash"
    using octdigit_not_backslash by (metis set_takeWhileD)
  from backslash_n_drop [OF this assms(2)] rest show ?thesis by simp
qed

lemma decode_escape_backslash_n:
  assumes "decode_escape cs = Some (v, rest)" "contains_backslash_n (backslash # cs)"
  shows "newline \<in> set v \<or> contains_backslash_n rest \<or> (v = [backslash] \<and> (\<exists>t. rest = CHR ''n'' # t))"
proof (cases cs)
  case Nil
  with assms show ?thesis by simp
next
  case (Cons e rest0)
  show ?thesis
  proof (cases "e = CHR ''n''")
    case True
    with assms(1) Cons show ?thesis
      by (auto simp: decode_escape_def simple_escape_def)
  next
    case False
    with assms(2) Cons have c: "contains_backslash_n (e # rest0)" by simp
    show ?thesis
    proof (cases "e = backslash")
      case True
      with assms(1) Cons have "v = [backslash]" "rest = rest0"
        by (simp_all add: decode_escape_def simple_escape_def)
      moreover from c True have "(\<exists>t. rest0 = CHR ''n'' # t) \<or> contains_backslash_n rest0"
        by (cases rest0) auto
      ultimately show ?thesis by auto
    next
      case nb: False
      from backslash_n_tail [OF c nb] have r0: "contains_backslash_n rest0" .
      consider (same) "rest = rest0" | (hex) "decode_hex rest0 = Some (v, rest)"
        | (oct) "decode_octal (e # rest0) = Some (v, rest)"
        using assms(1) Cons
        by (auto simp: decode_escape_def split: option.splits if_splits)
      then show ?thesis
      proof cases
        case same
        with r0 show ?thesis by simp
      next
        case hex
        from decode_hex_backslash_n [OF hex r0] show ?thesis by simp
      next
        case oct
        from decode_octal_backslash_n [OF oct c] show ?thesis by simp
      qed
    qed
  qed
qed

lemma decode_body_backslash_n:
  "quote = squote \<or> quote = dquote \<Longrightarrow> decode_body quote cs = Some s \<Longrightarrow>
   contains_backslash_n cs \<Longrightarrow> newline \<in> set s \<or> contains_backslash_n s"
proof (induction quote cs arbitrary: s rule: decode_body.induct)
  case (1 quote)
  then show ?case by simp
next
  case (2 quote c cs)
  note q = "2.prems"(1)
  have nq: "c \<noteq> quote"
    using "2.prems"(2,3) by (auto split: if_splits)
  have nn: "c \<noteq> newline"
    using "2.prems"(2) nq by (auto split: if_splits)
  show ?case
  proof (cases "c = backslash")
    case True
    from "2.prems"(2) nq nn True obtain v rest s' where
      e: "decode_escape cs = Some (v, rest)" and b: "decode_body quote rest = Some s'"
      and s: "s = v @ s'"
      by (auto split: option.splits)
    from "2.prems"(3) True have "contains_backslash_n (backslash # cs)" by simp
    from decode_escape_backslash_n [OF e this] show ?thesis
    proof (elim disjE conjE exE)
      assume "newline \<in> set v"
      with s show ?thesis by simp
    next
      assume "contains_backslash_n rest"
      from "2.IH"(1) [OF nq nn True e refl q b this] s show ?thesis
        by (auto simp: backslash_n_append)
    next
      fix t assume v: "v = [backslash]" and r: "rest = CHR ''n'' # t"
      from b r q obtain s'' where "s' = CHR ''n'' # s''"
        by (auto split: if_splits)
      with s v show ?thesis by simp
    qed
  next
    case False
    from "2.prems"(2) nq nn False obtain s' where
      b: "decode_body quote cs = Some s'" and s: "s = c # s'"
      by auto
    from backslash_n_tail [OF "2.prems"(3) False] have "contains_backslash_n cs" .
    from "2.IH"(2) [OF nq nn False q b this] s show ?thesis
      by (auto simp: backslash_n_Cons)
  qed
qed

lemma py_decode_backslash_n:
  "py_decode raw = Some s \<Longrightarrow> contains_backslash_n raw \<Longrightarrow>
   newline \<in> set s \<or> contains_backslash_n s"
proof -
  assume d: "py_decode raw = Some s" and c: "contains_backslash_n raw"
  from d obtain q cs where raw: "raw = q # cs" and q: "q = squote \<or> q = dquote"
    and b: "decode_body q cs = Some s"
    by (auto simp: py_decode_def split: list.splits if_splits)
  from c raw q have "contains_backslash_n cs"
    by (auto dest: backslash_n_tail)
  from decode_body_backslash_n [OF q b this] show ?thesis .
qed

subsection \<open>Classification of one literal\<close>

lemma starts_with_quote_range:
  "starts_with_quote (slice source (fst r) (snd r)) \<Longrightarrow> r \<noteq> (0, 0)"
  by (auto simp: slice_def starts_with_quote_def)


text \<open>
  C1, evaluated on the claim's own input. The module documents "use double quotes where
  possible", and the claim asks for \<open>z = "hello"\<close>. The last branch of
  \<open>rewrite_quotes_for_node\<close> records the builtin \<open>repr\<close> of the value, which prefers the
  single quote: the text \<open>z = 'hello'\<close> comes back as it is, and \<open>z = "hello"\<close> comes
  back as \<open>z = 'hello'\<close>.
\<close>

theorem rewrite_hello_prefers_single_quotes:
  "rewrite (''z = 'hello'' @ [squote]) (assignment (Constant (Str ''hello'') (4, 11)))
     = ''z = 'hello'' @ [squote]
   \<and> rewrite (''z = '' @ [dquote] @ ''hello'' @ [dquote]) (assignment (Constant (Str ''hello'') (4, 11)))
     = ''z = 'hello'' @ [squote]"
  by code_simp

text \<open>
  C2, as the code has it. For a literal that is not marked as a docstring: when the text of
  its range is exactly the empty literal in either quote style, the replacement \<open>''\<close> is
  recorded for the range; when the text starts with a quote, is not that empty literal, and
  the value has exactly one character, the \<open>repr\<close> of the value is recorded, which for
  every character but the single quote itself is the escaped character between single
  quotes.
\<close>

theorem empty_and_single_character_literals:
  "(slice source (fst r) (snd r) = [dquote, dquote] \<or> slice source (fst r) (snd r) = [squote, squote]
      \<longrightarrow> rewrite_quotes_for_node source False s r reps = reps @ [(r, [squote, squote])])
   \<and> (starts_with_quote (slice source (fst r) (snd r))
        \<and> slice source (fst r) (snd r) \<noteq> [dquote, dquote]
        \<and> slice source (fst r) (snd r) \<noteq> [squote, squote]
        \<and> s = [ch]
      \<longrightarrow> rewrite_quotes_for_node source False s r reps = reps @ [(r, py_repr s)]
          \<and> (ch \<noteq> squote \<longrightarrow> py_repr s = [squote] @ repr_char squote ch @ [squote]))"
proof (intro conjI impI)
  assume "slice source (fst r) (snd r) = [dquote, dquote] \<or> slice source (fst r) (snd r) = [squote, squote]"
  then show "rewrite_quotes_for_node source False s r reps = reps @ [(r, [squote, squote])]"
    by (auto simp: rewrite_quotes_for_node_def record_replacement_def slice_def)
next
  assume a: "starts_with_quote (slice source (fst r) (snd r))
        \<and> slice source (fst r) (snd r) \<noteq> [dquote, dquote]
        \<and> slice source (fst r) (snd r) \<noteq> [squote, squote]
        \<and> s = [ch]"
  then have "r \<noteq> (0, 0)"
    using starts_with_quote_range [of source r] by blast
  with a show "rewrite_quotes_for_node source False s r reps = reps @ [(r, py_repr s)]"
    by (simp add: rewrite_quotes_for_node_def record_replacement_def)
next
  assume "starts_with_quote (slice source (fst r) (snd r))
        \<and> slice source (fst r) (snd r) \<noteq> [dquote, dquote]
        \<and> slice source (fst r) (snd r) \<noteq> [squote, squote]
        \<and> s = [ch]"
    and "ch \<noteq> squote"
  then show "py_repr s = [squote] @ repr_char squote ch @ [squote]"
    by (simp add: py_repr_def repr_quote_def)
qed

theorem empty_and_single_character_literals_witness:
  "slice (''x = '' @ [dquote, dquote]) 4 6 = [dquote, dquote]
   \<and> rewrite_quotes_for_node (''x = '' @ [dquote, dquote]) False [] (4, 6) [] = [((4, 6), [squote, squote])]
   \<and> starts_with_quote (slice (''y = '' @ [dquote, CHR ''a'', dquote]) 4 7)
   \<and> rewrite_quotes_for_node (''y = '' @ [dquote, CHR ''a'', dquote]) False ''a'' (4, 7) []
       = [((4, 7), [squote, CHR ''a'', squote])]
   \<and> starts_with_quote (slice (''y = '' @ [dquote, backslash, CHR ''n'', dquote]) 4 8)
   \<and> rewrite_quotes_for_node (''y = '' @ [dquote, backslash, CHR ''n'', dquote]) False [newline] (4, 8) []
       = [((4, 8), [squote, backslash, CHR ''n'', squote])]"
  using empty_and_single_character_literals
      [of "''x = '' @ [dquote, dquote]" "(4, 6)" "[]" "[]" "CHR ''a''"]
    empty_and_single_character_literals
      [of "''y = '' @ [dquote, CHR ''a'', dquote]" "(4, 7)" "''a''" "[]" "CHR ''a''"]
    empty_and_single_character_literals
      [of "''y = '' @ [dquote, backslash, CHR ''n'', dquote]" "(4, 8)" "[newline]" "[]" "newline"]
  by (simp add: slice_def starts_with_quote_def repr_char_def)

text \<open>
  C2 as stated fails twice. The empty literal that stands as the docstring of
  \<open>def f(): ""\<close> has the two-character spelling and is not replaced; and the literal
  \<open>"'"\<close>, whose value is the single quote alone, is replaced by the \<open>repr\<close> of that
  value, which is \<open>"'"\<close> again, between double quotes.
\<close>

theorem empty_docstring_and_lone_quote_counterexample:
  "rewrite (''def f(): '' @ [dquote, dquote])
       (function_with_body [Expr (Constant (Str []) (9, 11))])
     = ''def f(): '' @ [dquote, dquote]
   \<and> rewrite (''x = '' @ [dquote, squote, dquote]) (assignment (Constant (Str [squote]) (4, 7)))
     = ''x = '' @ [dquote, squote, dquote]"
  by code_simp

text \<open>
  C3, as the code has it. A string literal whose spelling holds a line break, and whose
  value does not have exactly one character, gets no replacement.
\<close>

theorem spelling_with_line_break_unchanged:
  "newline \<in> set (slice source (fst r) (snd r)) \<Longrightarrow> length s \<noteq> 1 \<Longrightarrow>
   visit source d (Constant (Str s) r) reps = reps"
  by (auto simp: rewrite_quotes_for_node_def)

theorem spelling_with_line_break_unchanged_witness:
  "newline \<in> set (slice (''x = '' @ [dquote, dquote, dquote, CHR ''a'', newline, CHR ''b'', dquote, dquote, dquote]) 4 13)
   \<and> length [CHR ''a'', newline, CHR ''b''] \<noteq> 1
   \<and> visit (''x = '' @ [dquote, dquote, dquote, CHR ''a'', newline, CHR ''b'', dquote, dquote, dquote]) False
         (Constant (Str [CHR ''a'', newline, CHR ''b'']) (4, 13)) [] = []"
  using spelling_with_line_break_unchanged
      [of "''x = '' @ [dquote, dquote, dquote, CHR ''a'', newline, CHR ''b'', dquote, dquote, dquote]"
          "(4, 13)" "[CHR ''a'', newline, CHR ''b'']" False "[]"]
  by (simp add: slice_def)

text \<open>
  C3 as stated fails: the triple-quoted literal of \<open>x = """hello"""\<close> stands on one line,
  and is replaced by \<open>'hello'\<close>; and the triple-quoted literal that holds one line break
  and nothing else spans two lines, and is replaced by the escape for a line break between
  single quotes.
\<close>

theorem triple_quoted_on_one_line_counterexample:
  "rewrite (''x = '' @ [dquote, dquote, dquote] @ ''hello'' @ [dquote, dquote, dquote])
       (assignment (Constant (Str ''hello'') (4, 15)))
     = ''x = 'hello'' @ [squote]
   \<and> rewrite (''x = '' @ [dquote, dquote, dquote, newline, dquote, dquote, dquote])
       (assignment (Constant (Str [newline]) (4, 11)))
     = ''x = '' @ [squote, backslash, CHR ''n'', squote]"
  by code_simp

text \<open>
  C4, as the code has it. A string literal whose value does not have exactly one
  character, and whose value holds a line break or a backslash followed by n, gets no
  replacement; so does one whose spelling is a plain literal that holds a backslash
  followed by n, since its value holds one of the two. (The text of its range is not the
  bare empty literal: the value of that one is empty.)
\<close>

theorem value_with_line_break_unchanged:
  "newline \<in> set s \<or> contains_backslash_n s
     \<or> (contains_backslash_n (slice source (fst r) (snd r))
         \<and> py_decode (slice source (fst r) (snd r)) = Some s) \<Longrightarrow>
   length s \<noteq> 1 \<Longrightarrow>
   slice source (fst r) (snd r) \<noteq> [dquote, dquote] \<Longrightarrow>
   slice source (fst r) (snd r) \<noteq> [squote, squote] \<Longrightarrow>
   visit source d (Constant (Str s) r) reps = reps"
proof -
  assume a: "newline \<in> set s \<or> contains_backslash_n s
     \<or> (contains_backslash_n (slice source (fst r) (snd r))
         \<and> py_decode (slice source (fst r) (snd r)) = Some s)"
    and b: "length s \<noteq> 1" "slice source (fst r) (snd r) \<noteq> [dquote, dquote]"
      "slice source (fst r) (snd r) \<noteq> [squote, squote]"
  from a have "newline \<in> set s \<or> contains_backslash_n s"
    using py_decode_backslash_n by blast
  with b show ?thesis
    by (auto simp: rewrite_quotes_for_node_def)
qed

theorem value_with_line_break_unchanged_witness:
  "contains_backslash_n (slice (''x = '' @ [dquote, CHR ''a'', backslash, CHR ''n'', CHR ''b'', dquote]) 4 10)
   \<and> py_decode (slice (''x = '' @ [dquote, CHR ''a'', backslash, CHR ''n'', CHR ''b'', dquote]) 4 10)
       = Some [CHR ''a'', newline, CHR ''b'']
   \<and> length [CHR ''a'', newline, CHR ''b''] \<noteq> 1
   \<and> slice (''x = '' @ [dquote, CHR ''a'', backslash, CHR ''n'', CHR ''b'', dquote]) 4 10 \<noteq> [dquote, dquote]
   \<and> slice (''x = '' @ [dquote, CHR ''a'', backslash, CHR ''n'', CHR ''b'', dquote]) 4 10 \<noteq> [squote, squote]
   \<and> visit (''x = '' @ [dquote, CHR ''a'', backslash, CHR ''n'', CHR ''b'', dquote]) False
         (Constant (Str [CHR ''a'', newline, CHR ''b'']) (4, 10)) [] = []"
  using value_with_line_break_unchanged
      [of "[CHR ''a'', newline, CHR ''b'']"
          "''x = '' @ [dquote, CHR ''a'', backslash, CHR ''n'', CHR ''b'', dquote]" "(4, 10)" False "[]"]
  by (simp add: slice_def py_decode_def decode_escape_def simple_escape_def)

text \<open>
  C4 as stated fails: the literal of an assignment that is spelled as the escape for a
  line break between double quotes has a line break alone for its value, and is replaced
  by the same escape between single quotes.
\<close>

theorem lone_line_break_counterexample:
  "rewrite (''x = '' @ [dquote, backslash, CHR ''n'', dquote]) (assignment (Constant (Str [newline]) (4, 8)))
     = ''x = '' @ [squote, backslash, CHR ''n'', squote]"
  by code_simp

subsection \<open>Docstrings\<close>

text \<open>
  C5. When the body of a class, function or async function definition starts with an
  expression statement that holds a string literal, the literal is visited with its
  docstring mark set, and no replacement is recorded for it, whatever its value and its
  text range: the visit of the definition records what the visits of the other child nodes
  record.
\<close>

theorem docstring_never_rewritten:
  "visit source d (Definition k first_fields (Expr (Constant (Str s) r) # body) last_fields) reps =
   visit_list source last_fields (visit_list source body (visit_list source first_fields reps))"
  by (simp add: rewrite_quotes_for_node_docstring)

theorem docstring_never_rewritten_witness:
  "visit (''def f(): 'doc' ; return 'hello'' @ [squote]) False
     (Definition FunctionDef [Other []]
        [Expr (Constant (Str ''doc'') (9, 14)), Other [Constant (Str ''hello'') (24, 31)]] []) []
   = [((24, 31), [squote] @ ''hello'' @ [squote])]"
  using docstring_never_rewritten
      [of "''def f(): 'doc' ; return 'hello'' @ [squote]" False FunctionDef "[Other []]" "''doc''" "(9, 14)"
          "[Other [Constant (Str ''hello'') (24, 31)]]" "[]" "[]"]
  by (simp add: rewrite_quotes_for_node_def slice_def starts_with_quote_def record_replacement_def
      py_repr_def repr_quote_def repr_char_def)



subsection \<open>Value preservation\<close>




subsection \<open>The apply pass\<close>

lemma descending_within_mono:
  "descending_within n ds \<Longrightarrow> n \<le> m \<Longrightarrow> descending_within m ds"
  by (cases ds) auto

lemma descending_within_starts:
  "descending_within n ds \<Longrightarrow> x \<in> set ds \<Longrightarrow> fst (fst x) \<le> n \<and> snd (fst x) \<le> n"
proof (induction ds arbitrary: n)
  case Nil
  then show ?case by simp
next
  case (Cons d ds)
  obtain a b m where d: "d = ((a, b), m)" by (metis surj_pair)
  from Cons.prems d have ab: "a \<le> b" "b \<le> n" and rest: "descending_within a ds" by simp_all
  show ?case
  proof (cases "x = d")
    case True
    with d ab show ?thesis by simp
  next
    case False
    with Cons.prems have "x \<in> set ds" by simp
    from Cons.IH [OF rest this] ab show ?thesis by simp
  qed
qed

lemma apply_replacements_append:
  "descending_within (length p) ds \<Longrightarrow>
   apply_replacements ds (p @ q) = apply_replacements ds p @ q"
proof (induction ds arbitrary: p)
  case Nil
  then show ?case by simp
next
  case (Cons d ds)
  obtain a b m where d: "d = ((a, b), m)" by (metis surj_pair)
  from Cons.prems d have ab: "a \<le> b" "b \<le> length p" and rest: "descending_within a ds" by simp_all
  have len: "a \<le> length (take a p @ m @ drop b p)" using ab by simp
  have "apply_replacements (d # ds) (p @ q) = apply_replacements ds ((take a p @ m @ drop b p) @ q)"
    using d ab by simp
  also have "\<dots> = apply_replacements ds (take a p @ m @ drop b p) @ q"
    by (rule Cons.IH [OF descending_within_mono [OF rest len]])
  finally show ?case using d by simp
qed

lemma apply_replacements_Cons:
  assumes "descending_within (length source) (((a, b), m) # ds)"
  shows "apply_replacements (((a, b), m) # ds) source =
         apply_replacements ds (take a source) @ m @ drop b source"
proof -
  from assms have ab: "a \<le> b" "b \<le> length source" and rest: "descending_within a ds" by simp_all
  have "descending_within (length (take a source)) ds" using rest ab by simp
  from apply_replacements_append [OF this] show ?thesis by simp
qed

lemma splice_snoc:
  assumes "\<forall>x \<in> set es. fst (fst x) \<le> a"
  shows "splice pos (es @ [((a, b), m)]) source = splice pos es (take a source) @ m @ drop b source"
  using assms
proof (induction es arbitrary: pos)
  case Nil
  then show ?case by (simp add: slice_def)
next
  case (Cons e es)
  obtain c d k where e: "e = ((c, d), k)" by (metis surj_pair)
  from Cons.prems e have c: "c \<le> a" and rest: "\<forall>x \<in> set es. fst (fst x) \<le> a" by simp_all
  have "slice (take a source) pos c = slice source pos c"
    using c by (simp add: slice_def min_def)
  with Cons.IH [OF rest] e show ?case by simp
qed

lemma apply_replacements_splice:
  "descending_within (length source) ds \<Longrightarrow>
   apply_replacements ds source = splice 0 (rev ds) source"
proof (induction ds arbitrary: source)
  case Nil
  then show ?case by simp
next
  case (Cons d ds)
  obtain a b m where d: "d = ((a, b), m)" by (metis surj_pair)
  from Cons.prems d have ab: "a \<le> b" "b \<le> length source" and rest: "descending_within a ds" by simp_all
  have r: "descending_within (length (take a source)) ds" using rest ab by simp
  have st: "\<forall>x \<in> set (rev ds). fst (fst x) \<le> a"
    using descending_within_starts [OF rest] by simp
  have "apply_replacements (d # ds) source = apply_replacements ds (take a source) @ m @ drop b source"
    using apply_replacements_Cons Cons.prems d by simp
  also have "\<dots> = splice 0 (rev ds) (take a source) @ m @ drop b source"
    using Cons.IH [OF r] by simp
  also have "\<dots> = splice 0 (rev ds @ [((a, b), m)]) source"
    using splice_snoc [OF st] by simp
  finally show ?case using d by simp
qed

lemma set_insert_reverse: "set (insert_reverse x ds) = insert x (set ds)"
  by (induction ds) auto

lemma set_sorted_reverse: "set (sorted_reverse es) = set es"
  by (induction es) (simp_all add: sorted_reverse_def set_insert_reverse)

lemma descending_within_insert:
  assumes "descending_within n ds" "a \<le> b" "b \<le> n"
    and "\<forall>y \<in> set ds. separate (a, b) (fst y)"
  shows "descending_within n (insert_reverse ((a, b), m) ds)"
  using assms
proof (induction ds arbitrary: n)
  case Nil
  then show ?case by simp
next
  case (Cons d ds)
  obtain c e k where d: "d = ((c, e), k)" by (metis surj_pair)
  from Cons.prems d have ce: "c \<le> e" "e \<le> n" and rest: "descending_within c ds"
    and sep: "separate (a, b) (c, e)" and seps: "\<forall>y \<in> set ds. separate (a, b) (fst y)"
    by simp_all
  show ?case
  proof (cases "range_le (c, e) (a, b)")
    case True
    then have "e \<le> a"
      using sep ce Cons.prems(2) by (auto simp: range_le_def separate_def)
    with True d ce rest Cons.prems show ?thesis by simp
  next
    case False
    then have "b \<le> c"
      using sep ce Cons.prems(2) by (auto simp: range_le_def separate_def)
    from Cons.IH [OF rest Cons.prems(2) this seps] False d ce show ?thesis by simp
  qed
qed

lemma ranges_ok_descending:
  "ranges_ok n (map fst es) \<Longrightarrow> descending_within n (sorted_reverse es)"
proof (induction es)
  case Nil
  then show ?case by (simp add: sorted_reverse_def)
next
  case (Cons x es)
  obtain a b m where x: "x = ((a, b), m)" by (metis surj_pair)
  from Cons.prems x have ab: "a \<le> b" "b \<le> n"
    and sep: "\<forall>y \<in> set es. separate (a, b) (fst y)" and rest: "ranges_ok n (map fst es)"
    by (simp_all add: list_all_iff)
  from sep have sep': "\<forall>y \<in> set (sorted_reverse es). separate (a, b) (fst y)"
    by (simp add: set_sorted_reverse)
  have "sorted_reverse (x # es) = insert_reverse ((a, b), m) (sorted_reverse es)"
    by (simp add: sorted_reverse_def x)
  with descending_within_insert [OF Cons.IH [OF rest] ab sep'] show ?case by simp
qed

text \<open>
  C8. When no replacement was recorded, \<open>rewrite\<close> returns the source. When the recorded
  ranges are ranges of the source that do not overlap, in whatever order they were
  recorded, the loop over the replacements sorted from the bottom up gives the source
  spliced from left to right: outside the recorded ranges every character of the source
  stays, in its order, and each range holds its new text.
\<close>

theorem rewrite_frame:
  "(visit source False tree [] = [] \<longrightarrow> rewrite source tree = source)
   \<and> (ranges_ok (length source) (map fst (visit source False tree [])) \<longrightarrow>
        rewrite source tree = splice 0 (rev (sorted_reverse (visit source False tree []))) source)"
proof (intro conjI impI)
  assume "visit source False tree [] = []"
  then show "rewrite source tree = source"
    by (simp add: rewrite_def sorted_reverse_def)
next
  assume "ranges_ok (length source) (map fst (visit source False tree []))"
  from apply_replacements_splice [OF ranges_ok_descending [OF this]]
  show "rewrite source tree = splice 0 (rev (sorted_reverse (visit source False tree []))) source"
    by (simp add: rewrite_def)
qed

theorem rewrite_frame_witness:
  "visit ''a = 1'' False (assignment (Constant NonStr (4, 5))) [] = []
   \<and> rewrite ''a = 1'' (assignment (Constant NonStr (4, 5))) = ''a = 1''
   \<and> ranges_ok (length sum_source) (map fst (visit sum_source False sum_tree []))
   \<and> rewrite sum_source sum_tree = ''a = 'x1' + 'y2'' @ [squote]"
proof -
  have v: "visit sum_source False sum_tree [] =
      [((4, 8), [squote] @ ''x1'' @ [squote]), ((11, 15), [squote] @ ''y2'' @ [squote])]"
    by (simp add: sum_source_def sum_tree_def assignment_def rewrite_quotes_for_node_def slice_def
      starts_with_quote_def record_replacement_def py_repr_def repr_quote_def repr_char_def)
  have ok: "ranges_ok (length sum_source) (map fst (visit sum_source False sum_tree []))"
    by (simp add: v separate_def) (simp add: sum_source_def)
  have e: "visit ''a = 1'' False (assignment (Constant NonStr (4, 5))) [] = []"
    by (simp add: assignment_def)
  from rewrite_frame [of "''a = 1''" "assignment (Constant NonStr (4, 5))"] e
  have "rewrite ''a = 1'' (assignment (Constant NonStr (4, 5))) = ''a = 1''" by blast
  moreover from rewrite_frame [of sum_source sum_tree] ok
  have "rewrite sum_source sum_tree = splice 0 (rev (sorted_reverse (visit sum_source False sum_tree []))) sum_source"
    by blast
  then have "rewrite sum_source sum_tree = ''a = 'x1' + 'y2'' @ [squote]"
    by (simp add: v sorted_reverse_def range_le_def slice_def) (simp add: sum_source_def)
  ultimately show ?thesis using e ok by simp
qed

subsection \<open>Idempotence\<close>





lemma starts_with_quote_py_repr: "starts_with_quote (py_repr s)"
  by (simp add: starts_with_quote_def py_repr_def repr_quote_def)




























text \<open>
  The values of the tree come from the text that is read. From a text with the letter z in
  the place of the letter q, and a tab escape in the place of the doubled backslash and t,
  other values are read; from a text with an unfinished literal, no tree.
\<close>

lemma reparse_reads_the_text:
  "reparse (''a = 'pz' + '' @ [squote, squote] @ '' + '' @ [squote, CHR ''c'', CHR ''!'', backslash, CHR ''t'', squote])
       parts_source parts_tree
     = Some (assignment
       (Other [Other [Constant (Str ''pz'') (4, 8), Other [], Constant (Str []) (11, 13)],
               Other [], Constant (Str [CHR ''c'', CHR ''!'', tab]) (16, 22)]))
   \<and> reparse (''a = 'pq  + '' @ [squote, squote] @ '' + '' @ [squote, CHR ''c'', backslash, backslash, CHR ''t'', squote])
       parts_source parts_tree = None"
  by code_simp

subsection \<open>One literal in several parts\<close>











subsection \<open>Further properties of the classification\<close>

text \<open>
  X1. A string literal whose spelling does not start with a quote character (a raw, a
  formatted or another prefixed literal) gets no replacement.
\<close>

theorem prefixed_literal_unchanged:
  "\<not> starts_with_quote (slice source (fst r) (snd r)) \<Longrightarrow>
   visit source d (Constant (Str s) r) reps = reps"
  by (auto simp: rewrite_quotes_for_node_def starts_with_quote_def)

theorem prefixed_literal_unchanged_witness:
  "\<not> starts_with_quote (slice (''x = r'ab'' @ [squote]) 4 9)
   \<and> visit (''x = r'ab'' @ [squote]) False (Constant (Str ''ab'') (4, 9)) [] = []
   \<and> rewrite (''x = r'ab'' @ [squote]) (assignment (Constant (Str ''ab'') (4, 9))) = ''x = r'ab'' @ [squote]"
proof -
  have h: "\<not> starts_with_quote (slice (''x = r'ab'' @ [squote]) (fst (4, 9)) (snd (4 :: nat, 9 :: nat)))"
    by (simp add: slice_def starts_with_quote_def)
  from h prefixed_literal_unchanged [OF h, of False "''ab''" "[]"] show ?thesis
    by (simp add: rewrite_def assignment_def sorted_reverse_def)
qed

text \<open>
  X2. A string literal without a position, for which the text range is \<open>(0, 0)\<close>, gets
  no replacement.
\<close>

theorem unmapped_literal_unchanged:
  "visit source d (Constant (Str s) (0, 0)) reps = reps"
  by (simp add: rewrite_quotes_for_node_def)

text \<open>
  X3. The visit of a string literal records at most one replacement, and records it for
  the text range of the literal.
\<close>

theorem at_most_one_replacement:
  "visit source d (Constant (Str s) r) reps = reps
   \<or> (\<exists>new. visit source d (Constant (Str s) r) reps = reps @ [(r, new)])"
  by (simp add: rewrite_quotes_for_node_def record_replacement_def)

end
